theory Spec2Isabelle
  imports Complex_Main "HOL-Library.Word" "HOL-Library.Multiset"
begin

section \<open>Python values, exceptions and the try statement\<close>

text \<open>
  The two classifiers of \<^verbatim>\<open>src/server\<close> are Python classes around OpenCV, NumPy and
  three pickled scikit-learn objects. A Python call either returns a value or raises; it
  is modelled as a value of \<open>exn + 'a\<close>, with \<open>Inl\<close> the exception raised. Only exceptions
  derived from \<^verbatim>\<open>Exception\<close> are modelled: they are the ones a failing computation
  raises and the ones \<^verbatim>\<open>except Exception\<close> catches.
\<close>

datatype exn_class = ValueError | AttributeError | IndexError | TypeError | OtherError

datatype exn = Exn exn_class string

fun exn_kind :: "exn \<Rightarrow> exn_class" where
  "exn_kind (Exn c m) = c"

fun py_str :: "exn \<Rightarrow> string" where
  "py_str (Exn c m) = m"

text \<open>Sequencing of two statements: the second runs only when the first returned.\<close>

definition and_then :: "exn + 'a \<Rightarrow> ('a \<Rightarrow> exn + 'b) \<Rightarrow> exn + 'b" where
  "and_then r f = (case r of Inl e \<Rightarrow> Inl e | Inr v \<Rightarrow> f v)"

text \<open>\<^verbatim>\<open>try: body except Exception as e: handler\<close>.\<close>

definition try_except :: "exn + 'a \<Rightarrow> (exn \<Rightarrow> exn + 'a) \<Rightarrow> exn + 'a" where
  "try_except body handler = (case body of Inl e \<Rightarrow> handler e | Inr v \<Rightarrow> Inr v)"

text \<open>\<^verbatim>\<open>try: body except ValueError as e: handler\<close>: any other exception passes through.\<close>

definition try_except_ValueError :: "exn + 'a \<Rightarrow> (exn \<Rightarrow> exn + 'a) \<Rightarrow> exn + 'a" where
  "try_except_ValueError body handler =
     (case body of
        Inl e \<Rightarrow> if exn_kind e = ValueError then handler e else Inl e
      | Inr v \<Rightarrow> Inr v)"

text \<open>The values the classifiers return: \<^verbatim>\<open>None\<close> or a dictionary ready for \<^verbatim>\<open>json.dumps\<close>.\<close>

datatype pyval =
    PyNone
  | PyBool bool
  | PyStr string
  | PyFloat real
  | PyList "pyval list"
  | PyDict "(string \<times> pyval) list"

fun dict_get :: "pyval \<Rightarrow> string \<Rightarrow> pyval option" where
  "dict_get (PyDict kvs) k = map_of kvs k"
| "dict_get _ k = None"

section \<open>Length reconciliation\<close>

text \<open>
  \<^verbatim>\<open>improved-sklearn-classifier.py\<close>, lines 109 to 117, inside \<^verbatim>\<open>extract_features_robust\<close>:
  \<^verbatim>\<open>
    if scaler_expected and features_array.shape[1] > scaler_expected:
        features_array = features_array[:, :scaler_expected]
    elif scaler_expected and features_array.shape[1] < scaler_expected:
        padding = np.zeros((1, scaler_expected - features_array.shape[1]))
        features_array = np.hstack([features_array, padding])
  \<close>
  \<^verbatim>\<open>scaler_expected\<close> is \<^verbatim>\<open>getattr(self.scaler, 'n_features_in_', None)\<close>: \<open>None\<close> when the
  attribute is missing. Both \<^verbatim>\<open>None\<close> and \<^verbatim>\<open>0\<close> are false in a Python condition, so
  neither branch runs for them. The feature row is a list of reals (float64 without
  rounding).
\<close>

definition truthy :: "nat option \<Rightarrow> bool" where
  "truthy v = (case v of None \<Rightarrow> False | Some n \<Rightarrow> n \<noteq> 0)"

definition reconcile_robust :: "nat option \<Rightarrow> real list \<Rightarrow> real list" where
  "reconcile_robust scaler_expected features_array =
     (if truthy scaler_expected \<and> length features_array > the scaler_expected
        then take (the scaler_expected) features_array
      else if truthy scaler_expected \<and> length features_array < the scaler_expected
        then features_array @ replicate (the scaler_expected - length features_array) 0
      else features_array)"

text \<open>
  The second reconciliation, lines 146 to 151 of \<^verbatim>\<open>classify_image_safe\<close>, runs in the
  handler of a \<^verbatim>\<open>ValueError\<close> from the scaler, with
  \<^verbatim>\<open>expected = getattr(self.scaler, 'n_features_in_', features.shape[1])\<close> and no test of
  truth on \<^verbatim>\<open>expected\<close>.
\<close>

definition reconcile_expected :: "nat \<Rightarrow> real list \<Rightarrow> real list" where
  "reconcile_expected expected features =
     (if length features > expected then take expected features
      else if length features < expected
        then features @ replicate (expected - length features) 0
      else features)"

section \<open>Images and the OpenCV calls\<close>

text \<open>
  \<^verbatim>\<open>cv2.imread\<close> with its default flag returns \<^verbatim>\<open>None\<close> or an 8-bit image of three
  channels in the order blue, green, red: rows of pixels. OpenCV is not code of this
  repository; its operations are parameters of the model, gathered in a record, so the
  theorems hold for whatever these functions compute:
  \<^item> \<open>imread\<close>, the decoder together with the files it reads;
  \<^item> \<open>resize_at img w h y x\<close>, the pixel that \<^verbatim>\<open>cv2.resize(img, (w, h))\<close> puts in row
    \<open>y\<close> and column \<open>x\<close> of its result, which has \<open>h\<close> rows and \<open>w\<close> columns;
  \<^item> \<open>bgr2hsv\<close>, \<open>bgr2lab\<close> and \<open>bgr2gray\<close>, the colour conversions of one pixel
    (\<^verbatim>\<open>cv2.cvtColor\<close> converts pixel by pixel);
  \<^item> \<open>sobel gray dx dy\<close>, \<^verbatim>\<open>cv2.Sobel(gray, cv2.CV_64F, dx, dy, ksize=3)\<close>.
\<close>

type_synonym pixel = "8 word \<times> 8 word \<times> 8 word"
type_synonym image = "pixel list list"
type_synonym gray_image = "8 word list list"

record cv2 =
  imread :: "string \<Rightarrow> image option"
  resize_at :: "image \<Rightarrow> nat \<Rightarrow> nat \<Rightarrow> nat \<Rightarrow> nat \<Rightarrow> pixel"
  bgr2hsv :: "pixel \<Rightarrow> pixel"
  bgr2lab :: "pixel \<Rightarrow> pixel"
  bgr2gray :: "pixel \<Rightarrow> 8 word"
  sobel :: "gray_image \<Rightarrow> nat \<Rightarrow> nat \<Rightarrow> real list list"

definition cv2_resize :: "cv2 \<Rightarrow> image \<Rightarrow> nat \<times> nat \<Rightarrow> image" where
  "cv2_resize cv img dsize =
     (case dsize of (w, h) \<Rightarrow>
        map (\<lambda>y. map (\<lambda>x. resize_at cv img w h y x) [0..<w]) [0..<h])"

definition cvtColor :: "('a \<Rightarrow> 'b) \<Rightarrow> 'a list list \<Rightarrow> 'b list list" where
  "cvtColor conv img = map (map conv) img"

definition bgr2rgb :: "pixel \<Rightarrow> pixel" where
  "bgr2rgb p = (case p of (b, g, r) \<Rightarrow> (r, g, b))"

section \<open>The NumPy calls\<close>

text \<open>
  \<^verbatim>\<open>flatten\<close> lists the channel values row by row, pixel by pixel. \<^verbatim>\<open>mean\<close> and
  \<^verbatim>\<open>std\<close> are the arithmetic mean and the population standard deviation; with
  \<^verbatim>\<open>axis=(0,1)\<close> they are taken for each channel over all pixels.
\<close>

definition u8 :: "8 word \<Rightarrow> real" where
  "u8 c = real (unat c)"

definition flatten :: "image \<Rightarrow> real list" where
  "flatten img = concat (map (\<lambda>(c0, c1, c2). [u8 c0, u8 c1, u8 c2]) (concat img))"

definition np_mean :: "real list \<Rightarrow> real" where
  "np_mean xs = sum_list xs / real (length xs)"

definition np_std :: "real list \<Rightarrow> real" where
  "np_std xs = sqrt (np_mean (map (\<lambda>x. (x - np_mean xs)\<^sup>2) xs))"

definition channels :: "image \<Rightarrow> real list list" where
  "channels img =
     [map (\<lambda>(c0, c1, c2). u8 c0) (concat img),
      map (\<lambda>(c0, c1, c2). u8 c1) (concat img),
      map (\<lambda>(c0, c1, c2). u8 c2) (concat img)]"

definition mean_axis01 :: "image \<Rightarrow> real list" where
  "mean_axis01 img = map np_mean (channels img)"

definition std_axis01 :: "image \<Rightarrow> real list" where
  "std_axis01 img = map np_std (channels img)"

text \<open>
  \<^verbatim>\<open>xs[-3:][::-1]\<close>: the last three entries (all of them when there are fewer), last
  first.
\<close>

definition last3_reversed :: "'a list \<Rightarrow> 'a list" where
  "last3_reversed xs = rev (drop (length xs - 3) xs)"

text \<open>Indexing with a Python integer: a negative index counts from the end.\<close>

definition py_index :: "'a list \<Rightarrow> int \<Rightarrow> exn + 'a" where
  "py_index xs i =
     (if 0 \<le> i \<and> i < int (length xs) then Inr (xs ! nat i)
      else if i < 0 \<and> - int (length xs) \<le> i then Inr (xs ! nat (int (length xs) + i))
      else Inl (Exn IndexError ''index out of range''))"

fun map_exn :: "('a \<Rightarrow> exn + 'b) \<Rightarrow> 'a list \<Rightarrow> exn + 'b list" where
  "map_exn f [] = Inr []"
| "map_exn f (x # xs) =
     (case f x of
        Inl e \<Rightarrow> Inl e
      | Inr y \<Rightarrow> (case map_exn f xs of Inl e \<Rightarrow> Inl e | Inr ys \<Rightarrow> Inr (y # ys)))"

fun show_nat :: "nat \<Rightarrow> string" where
  "show_nat n =
     (if n < 10 then [char_of (48 + n)]
      else show_nat (n div 10) @ [char_of (48 + n mod 10)])"

section \<open>The feature vector\<close>

text \<open>
  Lines 80 to 106 of \<^verbatim>\<open>extract_features_robust\<close> and lines 70 to 96 of
  \<^verbatim>\<open>extract_features\<close> are the same code but for the size of the resize, 64 in the
  first and 128 in the second:
  \<^verbatim>\<open>
    img = cv2.resize(img, (img_size, img_size))
    features = []
    rgb_img = cv2.cvtColor(img, cv2.COLOR_BGR2RGB)
    features.extend(rgb_img.flatten())
    hsv_img = cv2.cvtColor(img, cv2.COLOR_BGR2HSV)
    features.extend(hsv_img.mean(axis=(0,1)))
    features.extend(hsv_img.std(axis=(0,1)))
    lab_img = cv2.cvtColor(img, cv2.COLOR_BGR2LAB)
    features.extend(lab_img.mean(axis=(0,1)))
    features.extend(lab_img.std(axis=(0,1)))
    gray = cv2.cvtColor(img, cv2.COLOR_BGR2GRAY)
    sobelx = cv2.Sobel(gray, cv2.CV_64F, 1, 0, ksize=3)
    sobely = cv2.Sobel(gray, cv2.CV_64F, 0, 1, ksize=3)
    features.extend([sobelx.mean(), sobelx.std(), sobely.mean(), sobely.std()])
    features_array = np.array(features).reshape(1, -1)
  \<close>
\<close>

definition compute_features :: "cv2 \<Rightarrow> nat \<Rightarrow> image \<Rightarrow> real list" where
  "compute_features cv img_size img0 =
     (let img = cv2_resize cv img0 (img_size, img_size);
          rgb_img = cvtColor bgr2rgb img;
          hsv_img = cvtColor (bgr2hsv cv) img;
          lab_img = cvtColor (bgr2lab cv) img;
          gray = cvtColor (bgr2gray cv) img;
          sobelx = concat (sobel cv gray 1 0);
          sobely = concat (sobel cv gray 0 1)
      in flatten rgb_img
         @ mean_axis01 hsv_img @ std_axis01 hsv_img
         @ mean_axis01 lab_img @ std_axis01 lab_img
         @ [np_mean sobelx, np_std sobelx, np_mean sobely, np_std sobely])"

section \<open>The pickled scikit-learn objects\<close>

text \<open>
  The three artifacts are objects of scikit-learn, read with \<^verbatim>\<open>pickle.load\<close>; what they
  compute is a parameter of the model. A call never changes the fitted object, so a method
  is a function of its argument that returns or raises.

  \<^item> The scaler: \<open>n_features_in\<close> is the attribute \<^verbatim>\<open>n_features_in_\<close> (\<open>None\<close> when the
    object has none) and \<open>scale\<close> is what \<^verbatim>\<open>transform\<close> does after its check of the
    width. scikit-learn checks the width first: \<^verbatim>\<open>transform\<close> raises \<^verbatim>\<open>ValueError\<close> when
    the row does not have \<^verbatim>\<open>n_features_in_\<close> entries, and skips the check when the
    attribute is missing.
  \<^item> The reducer: \<open>n_components\<close> (only printed) and its \<^verbatim>\<open>transform\<close>.
  \<^item> The classifier: \<open>classes\<close> is the attribute \<^verbatim>\<open>classes_\<close>, the labels as text;
    \<open>predict\<close> gives the label of the row, an integer as the comparison
    \<^verbatim>\<open>prediction < len(class_names)\<close> expects; \<open>predict_proba\<close> gives one probability
    for each class.
\<close>

record scaler_obj =
  n_features_in :: "nat option"
  scale :: "real list \<Rightarrow> exn + real list"

record pca_obj =
  n_components :: "nat option"
  pca_transform :: "real list \<Rightarrow> exn + real list"

record model_obj =
  classes :: "string list option"
  predict :: "real list \<Rightarrow> exn + int"
  predict_proba :: "real list \<Rightarrow> exn + real list"

definition scaler_transform :: "scaler_obj \<Rightarrow> real list \<Rightarrow> exn + real list" where
  "scaler_transform sc X =
     (case n_features_in sc of
        None \<Rightarrow> scale sc X
      | Some n \<Rightarrow>
          if length X \<noteq> n
            then Inl (Exn ValueError ''X has a number of features the scaler is not expecting'')
          else scale sc X)"

text \<open>A method call on an attribute that holds \<^verbatim>\<open>None\<close> raises \<^verbatim>\<open>AttributeError\<close>.\<close>

definition call_on :: "'o option \<Rightarrow> ('o \<Rightarrow> exn + 'a) \<Rightarrow> exn + 'a" where
  "call_on obj method =
     (case obj of
        None \<Rightarrow> Inl (Exn AttributeError ''NoneType object has no such attribute'')
      | Some ob \<Rightarrow> method ob)"

section \<open>The classifier objects and their loading\<close>

text \<open>
  Both classes hold \<^verbatim>\<open>self.model\<close>, \<^verbatim>\<open>self.pca\<close> and \<^verbatim>\<open>self.scaler\<close>;
  \<^verbatim>\<open>ImprovedSklearnClassifier\<close> adds \<^verbatim>\<open>self.plant_info\<close> and \<^verbatim>\<open>SklearnPlantClassifier\<close>
  adds \<^verbatim>\<open>self.class_names\<close>. A method takes the object and returns it with its result,
  so that every assignment to a field is seen in the object returned.

  The directory \<^verbatim>\<open>models\<close> is a record of what each file yields when it is opened and
  read: \<open>None\<close> when \<^verbatim>\<open>open\<close> or \<^verbatim>\<open>pickle.load\<close> (or \<^verbatim>\<open>json.load\<close>) raises.
\<close>

record classifier =
  model :: "model_obj option"
  pca :: "pca_obj option"
  scaler :: "scaler_obj option"

record improved_classifier = classifier +
  plant_info :: "(string \<times> string) list"

record plant_classifier = classifier +
  class_names :: "string list"

record models_dir =
  best_model_pkl :: "model_obj option"
  pca_pkl :: "pca_obj option"
  scaler_pkl :: "scaler_obj option"
  plant_info_json :: "(string \<times> string) list option"

text \<open>
  \<^verbatim>\<open>load_models\<close> assigns the three fields in turn inside one \<^verbatim>\<open>try\<close>; the handler sets
  \<^verbatim>\<open>self.model = None\<close> and leaves the other fields as they are. The function is the same
  in both classes but for what it prints and returns.
\<close>

definition load_models ::
  "models_dir \<Rightarrow> ('a classifier_scheme) \<Rightarrow> ('a classifier_scheme)" where
  "load_models dir self =
     (case best_model_pkl dir of
        None \<Rightarrow> self\<lparr>model := None\<rparr>
      | Some m \<Rightarrow>
          (case pca_pkl dir of
             None \<Rightarrow> self\<lparr>model := None\<rparr>
           | Some p \<Rightarrow>
               (case scaler_pkl dir of
                  None \<Rightarrow> self\<lparr>model := None, pca := Some p\<rparr>
                | Some s \<Rightarrow> self\<lparr>model := Some m, pca := Some p, scaler := Some s\<rparr>)))"

definition load_plant_info :: "models_dir \<Rightarrow> improved_classifier \<Rightarrow> improved_classifier" where
  "load_plant_info dir self =
     (case plant_info_json dir of
        None \<Rightarrow> self\<lparr>plant_info := []\<rparr>
      | Some info \<Rightarrow> self\<lparr>plant_info := info\<rparr>)"

definition ImprovedSklearnClassifier :: "models_dir \<Rightarrow> improved_classifier" where
  "ImprovedSklearnClassifier dir =
     load_plant_info dir
       (load_models dir \<lparr>model = None, pca = None, scaler = None, plant_info = []\<rparr>)"

definition plant_names :: "string list" where
  "plant_names =
     [''Aloevera'', ''Amla'', ''Amruta_Balli'', ''Arali'', ''Ashoka'', ''Ashwagandha'',
      ''Avacado'', ''Banana'', ''Basale'', ''Betel'', ''Betel_Nut'', ''Brahmi'',
      ''Castor'', ''Catharanthus'', ''Chakte'', ''Chilly'', ''Citron_lime'',
      ''Coffee'', ''Commonrue'', ''Coriander'', ''Curry'', ''Doddpathre'',
      ''Drumstick'', ''Ekka'', ''Eucalyptus'', ''Ganike'', ''Ganuga'', ''Gasagase'',
      ''Ginger'', ''Globe_Amarnath'', ''Guava'', ''Henna'', ''Hibiscus'', ''Honge'',
      ''Insulin'', ''Jackfruit'', ''Jasmine'', ''Kambajala'', ''Kasambruga'',
      ''Kohlrabi'', ''Lantana'', ''Lemon'', ''Lemongrass'', ''Mango'', ''Marigold'',
      ''Mint'', ''Neem'', ''Nelavembu'', ''Nerale'', ''Nooni'', ''Onion'', ''Padri'',
      ''Palak(Spinach)'', ''Papaya'', ''Parijatha'', ''Pea'', ''Pepper'',
      ''Pomegranate'', ''Pumpkin'', ''Raddish'', ''Rose'', ''Rosemary'', ''Sapota'',
      ''Seethaashoka'', ''Seethapala'', ''Spinach1'', ''Tamarind'', ''Taro'',
      ''Tecoma'', ''Thumbe'', ''Tomato'', ''Tulsi'', ''Turmeric'', ''Wood_sorel'']"

definition SklearnPlantClassifier :: "models_dir \<Rightarrow> plant_classifier" where
  "SklearnPlantClassifier dir =
     load_models dir \<lparr>model = None, pca = None, scaler = None, class_names = plant_names\<rparr>"

section \<open>\<^verbatim>\<open>improved-sklearn-classifier.py\<close>\<close>

text \<open>\<^verbatim>\<open>getattr(self.scaler, 'n_features_in_', None)\<close>, also when \<^verbatim>\<open>self.scaler\<close> is \<^verbatim>\<open>None\<close>.\<close>

definition scaler_expected_of :: "'a classifier_scheme \<Rightarrow> nat option" where
  "scaler_expected_of self = (case scaler self of None \<Rightarrow> None | Some sc \<Rightarrow> n_features_in sc)"

text \<open>
  The body of the \<^verbatim>\<open>try\<close> of \<^verbatim>\<open>extract_features_robust\<close>: it raises \<^verbatim>\<open>ValueError\<close> when
  \<^verbatim>\<open>cv2.imread\<close> gives \<^verbatim>\<open>None\<close>, and otherwise returns the reconciled row.
\<close>

definition extract_features_robust_body ::
  "cv2 \<Rightarrow> improved_classifier \<Rightarrow> string \<Rightarrow> exn + real list" where
  "extract_features_robust_body cv self image_path =
     (case imread cv image_path of
        None \<Rightarrow> Inl (Exn ValueError ''Could not read image'')
      | Some img \<Rightarrow>
          Inr (reconcile_robust (scaler_expected_of self) (compute_features cv 64 img)))"

text \<open>The handler \<^verbatim>\<open>except Exception\<close> prints and returns \<^verbatim>\<open>None\<close>.\<close>

definition extract_features_robust ::
  "cv2 \<Rightarrow> improved_classifier \<Rightarrow> string \<Rightarrow> real list option \<times> improved_classifier" where
  "extract_features_robust cv self image_path =
     (case extract_features_robust_body cv self image_path of
        Inl e \<Rightarrow> (None, self)
      | Inr features_array \<Rightarrow> (Some features_array, self))"

definition failure :: "string \<Rightarrow> pyval" where
  "failure msg = PyDict [(''success'', PyBool False), (''error'', PyStr msg)]"

text \<open>
  Lines 141 to 152: the scaling, and its handler of \<^verbatim>\<open>ValueError\<close> that reconciles the
  row once more and calls the scaler again; an exception of the second call is not
  caught here.
\<close>

definition scale_features :: "scaler_obj option \<Rightarrow> real list \<Rightarrow> exn + real list" where
  "scale_features sc features =
     try_except_ValueError
       (call_on sc (\<lambda>s. scaler_transform s features))
       (\<lambda>e. let expected =
                   (case sc of
                      None \<Rightarrow> length features
                    | Some s \<Rightarrow>
                        (case n_features_in s of None \<Rightarrow> length features | Some n \<Rightarrow> n))
             in call_on sc (\<lambda>s. scaler_transform s (reconcile_expected expected features)))"

text \<open>Whether the handler of lines 144 to 152 runs: the first call raised \<^verbatim>\<open>ValueError\<close>.\<close>

definition recovery_entered :: "scaler_obj option \<Rightarrow> real list \<Rightarrow> bool" where
  "recovery_entered sc features =
     (case call_on sc (\<lambda>s. scaler_transform s features) of
        Inl e \<Rightarrow> exn_kind e = ValueError
      | Inr v \<Rightarrow> False)"

text \<open>
  Lines 157 to 182, from the prediction to the dictionary returned. \<open>argsort\<close> is
  \<^verbatim>\<open>np.argsort\<close>, a parameter as the other library calls are.
\<close>

definition top_indices_of :: "(real list \<Rightarrow> nat list) \<Rightarrow> real list \<Rightarrow> nat list" where
  "top_indices_of argsort probabilities = last3_reversed (argsort probabilities)"

definition improved_result ::
  "(real list \<Rightarrow> nat list) \<Rightarrow> model_obj \<Rightarrow> real list \<Rightarrow> exn + pyval" where
  "improved_result argsort m features_pca =
     and_then (predict m features_pca) (\<lambda>prediction.
     and_then (predict_proba m features_pca) (\<lambda>probabilities.
       let names =
             (case classes m of
                Some cs \<Rightarrow> cs
              | None \<Rightarrow> map (\<lambda>i. ''class_'' @ show_nat i) [0..<length probabilities]);
           top_indices = top_indices_of argsort probabilities
       in
       and_then (if prediction < int (length names) then py_index names prediction
                 else Inr ''unknown'') (\<lambda>predicted_class.
       and_then (py_index probabilities prediction) (\<lambda>p.
       and_then (map_exn (\<lambda>idx.
                   and_then (if idx < length names then py_index names (int idx)
                             else Inr (''class_'' @ show_nat idx)) (\<lambda>plant.
                   and_then (py_index probabilities (int idx)) (\<lambda>q.
                     Inr (PyDict [(''plant'', PyStr plant),
                                  (''confidence'', PyFloat (q * 100))]))))
                 top_indices) (\<lambda>top_predictions.
         Inr (PyDict [(''success'', PyBool True),
                      (''predicted_class'', PyStr predicted_class),
                      (''confidence'', PyFloat (p * 100)),
                      (''top_predictions'', PyList top_predictions),
                      (''model_type'', PyStr ''sklearn_improved'')]))))))"

text \<open>The body of the \<^verbatim>\<open>try\<close> of \<^verbatim>\<open>classify_image_safe\<close>, lines 134 to 182.\<close>

definition classify_image_safe_body ::
  "cv2 \<Rightarrow> (real list \<Rightarrow> nat list) \<Rightarrow> improved_classifier \<Rightarrow> string
     \<Rightarrow> (exn + pyval) \<times> improved_classifier" where
  "classify_image_safe_body cv argsort self image_path =
     (case extract_features_robust cv self image_path of
        (None, self1) \<Rightarrow> (Inr (failure ''Feature extraction failed''), self1)
      | (Some features, self1) \<Rightarrow>
          (and_then (scale_features (scaler self1) features) (\<lambda>features_scaled.
           and_then (call_on (pca self1) (\<lambda>p. pca_transform p features_scaled)) (\<lambda>features_pca.
           call_on (model self1) (\<lambda>m. improved_result argsort m features_pca))),
           self1))"

definition classify_image_safe ::
  "cv2 \<Rightarrow> (real list \<Rightarrow> nat list) \<Rightarrow> improved_classifier \<Rightarrow> string
     \<Rightarrow> (exn + pyval) \<times> improved_classifier" where
  "classify_image_safe cv argsort self image_path =
     (case model self of
        None \<Rightarrow> (Inr (failure ''Models not loaded''), self)
      | Some m \<Rightarrow>
          (case classify_image_safe_body cv argsort self image_path of
             (r, self1) \<Rightarrow>
               (try_except r (\<lambda>e. Inr (failure (''Classification failed: '' @ py_str e))),
                self1)))"

section \<open>\<^verbatim>\<open>sklearn-plant-classifier.py\<close>\<close>

definition extract_features ::
  "cv2 \<Rightarrow> plant_classifier \<Rightarrow> string \<Rightarrow> real list option \<times> plant_classifier" where
  "extract_features cv self image_path =
     (case (case imread cv image_path of
              None \<Rightarrow> Inl (Exn ValueError ''Could not read image'')
            | Some img \<Rightarrow> Inr (compute_features cv 128 img)) of
        Inl e \<Rightarrow> (None, self)
      | Inr features \<Rightarrow> (Some features, self))"

definition plant_result ::
  "(real list \<Rightarrow> nat list) \<Rightarrow> string list \<Rightarrow> model_obj \<Rightarrow> real list \<Rightarrow> exn + pyval" where
  "plant_result argsort names m features_pca =
     and_then (predict m features_pca) (\<lambda>prediction.
     and_then (predict_proba m features_pca) (\<lambda>probabilities.
       let top_indices = top_indices_of argsort probabilities in
       and_then (py_index names prediction) (\<lambda>predicted_class.
       and_then (py_index probabilities prediction) (\<lambda>p.
       and_then (map_exn (\<lambda>idx.
                   and_then (py_index names (int idx)) (\<lambda>plant.
                   and_then (py_index probabilities (int idx)) (\<lambda>q.
                     Inr (PyDict [(''plant'', PyStr plant),
                                  (''confidence'', PyFloat (q * 100))]))))
                 top_indices) (\<lambda>top_predictions.
         Inr (PyDict [(''predicted_class'', PyStr predicted_class),
                      (''confidence'', PyFloat (p * 100)),
                      (''top_predictions'', PyList top_predictions)]))))))"

definition classify_image_body ::
  "cv2 \<Rightarrow> (real list \<Rightarrow> nat list) \<Rightarrow> plant_classifier \<Rightarrow> string
     \<Rightarrow> (exn + pyval) \<times> plant_classifier" where
  "classify_image_body cv argsort self image_path =
     (case extract_features cv self image_path of
        (None, self1) \<Rightarrow> (Inr PyNone, self1)
      | (Some features, self1) \<Rightarrow>
          (and_then (call_on (scaler self1) (\<lambda>s. scaler_transform s features)) (\<lambda>features_scaled.
           and_then (call_on (pca self1) (\<lambda>p. pca_transform p features_scaled)) (\<lambda>features_pca.
           call_on (model self1) (\<lambda>m. plant_result argsort (class_names self1) m features_pca))),
           self1))"

definition classify_image ::
  "cv2 \<Rightarrow> (real list \<Rightarrow> nat list) \<Rightarrow> plant_classifier \<Rightarrow> string
     \<Rightarrow> (exn + pyval) \<times> plant_classifier" where
  "classify_image cv argsort self image_path =
     (case model self of
        None \<Rightarrow> (Inr PyNone, self)
      | Some m \<Rightarrow>
          (case classify_image_body cv argsort self image_path of
             (r, self1) \<Rightarrow> (try_except r (\<lambda>e. Inr PyNone), self1)))"

section \<open>Shapes of the results\<close>

text \<open>
  A tagged failure record is a dictionary whose \<^verbatim>\<open>success\<close> is \<^verbatim>\<open>False\<close> and whose
  \<^verbatim>\<open>error\<close> is a string that is not empty; a success record has \<^verbatim>\<open>success\<close> \<^verbatim>\<open>True\<close>.
\<close>

definition tagged_failure :: "pyval \<Rightarrow> bool" where
  "tagged_failure r =
     (dict_get r ''success'' = Some (PyBool False)
      \<and> (case dict_get r ''error'' of Some (PyStr msg) \<Rightarrow> msg \<noteq> [] | _ \<Rightarrow> False))"

definition tagged_success :: "pyval \<Rightarrow> bool" where
  "tagged_success r = (dict_get r ''success'' = Some (PyBool True))"

section \<open>The ranking the specification describes\<close>

text \<open>
  The specification's ranking, written from its words for comparison with
  \<open>top_indices_of\<close>: the classes in descending order of probability, a class of lower
  index first among equal probabilities (the stable descending sort), cut to \<open>K\<close>.
\<close>

definition spec_stable_descending_topK :: "nat \<Rightarrow> real list \<Rightarrow> nat list" where
  "spec_stable_descending_topK K probabilities =
     take K (sort_key (\<lambda>i. - (probabilities ! i)) [0..<length probabilities])"

section \<open>An instance of the library calls, for concrete inputs\<close>

text \<open>
  The concrete inputs of the closed theorems need concrete library calls. These follow
  the formulas of OpenCV's documentation for 8-bit images, in real arithmetic:
  \<^item> \<open>saturate_u8\<close>: rounding to the nearest integer, kept within 0 to 255;
  \<^item> \<open>bilinear_at\<close>: the default interpolation of \<^verbatim>\<open>cv2.resize\<close>, pixel centres aligned,
    the border replicated;
  \<^item> \<open>doc_bgr2hsv\<close>: \<open>V = max\<close>, \<open>S = (V - min) / V\<close>, the hue in degrees halved;
  \<^item> \<open>doc_bgr2lab\<close>: CIE L*a*b* through XYZ with the D65 white point, \<open>L\<close> scaled by
    \<open>255 / 100\<close> and \<open>a\<close>, \<open>b\<close> shifted by 128;
  \<^item> \<open>doc_bgr2gray\<close>: \<open>0.299 R + 0.587 G + 0.114 B\<close>;
  \<^item> \<open>doc_sobel\<close>: the 3 by 3 Sobel kernels, the border reflected without repeating
    the edge pixel.
\<close>

definition saturate_u8 :: "real \<Rightarrow> 8 word" where
  "saturate_u8 x = word_of_int (max 0 (min 255 (round x)))"

definition clamp_index :: "int \<Rightarrow> nat \<Rightarrow> nat" where
  "clamp_index i n = nat (max 0 (min (int n - 1) i))"

definition bilinear_at :: "image \<Rightarrow> nat \<Rightarrow> nat \<Rightarrow> nat \<Rightarrow> nat \<Rightarrow> pixel" where
  "bilinear_at img w h y x =
     (let sh = length img;
          sw = length (hd img);
          fy = (real y + 1 / 2) * (real sh / real h) - 1 / 2;
          fx = (real x + 1 / 2) * (real sw / real w) - 1 / 2;
          y0 = \<lfloor>fy\<rfloor>;
          x0 = \<lfloor>fx\<rfloor>;
          ty = fy - real_of_int y0;
          tx = fx - real_of_int x0;
          pix = (\<lambda>i j. img ! clamp_index i sh ! clamp_index j sw);
          mix = (\<lambda>sel. saturate_u8
                   ((1 - ty) * ((1 - tx) * u8 (sel (pix y0 x0)) + tx * u8 (sel (pix y0 (x0 + 1))))
                    + ty * ((1 - tx) * u8 (sel (pix (y0 + 1) x0))
                            + tx * u8 (sel (pix (y0 + 1) (x0 + 1))))))
      in (mix fst, mix (\<lambda>p. fst (snd p)), mix (\<lambda>p. snd (snd p))))"

definition doc_bgr2hsv :: "pixel \<Rightarrow> pixel" where
  "doc_bgr2hsv p =
     (case p of (b, g, r) \<Rightarrow>
        let R = u8 r / 255; G = u8 g / 255; B = u8 b / 255;
            V = max R (max G B);
            m = min R (min G B);
            S = (if V = 0 then 0 else (V - m) / V);
            H0 = (if V = m then 0
                  else if V = R then 60 * (G - B) / (V - m)
                  else if V = G then 120 + 60 * (B - R) / (V - m)
                  else 240 + 60 * (R - G) / (V - m));
            H = (if H0 < 0 then H0 + 360 else H0)
        in (saturate_u8 (H / 2), saturate_u8 (255 * S), saturate_u8 (255 * V)))"

definition lab_f :: "real \<Rightarrow> real" where
  "lab_f t = (if t > 8856 / 1000000 then root 3 t else 7787 / 1000 * t + 16 / 116)"

definition doc_bgr2lab :: "pixel \<Rightarrow> pixel" where
  "doc_bgr2lab p =
     (case p of (b, g, r) \<Rightarrow>
        let R = u8 r / 255; G = u8 g / 255; B = u8 b / 255;
            X = (412453 * R + 357580 * G + 180423 * B) / 950456;
            Y = (212671 * R + 715160 * G + 72169 * B) / 1000000;
            Z = (19334 * R + 119193 * G + 950227 * B) / 1088754;
            L = (if Y > 8856 / 1000000 then 116 * root 3 Y - 16 else 9033 / 10 * Y);
            a = 500 * (lab_f X - lab_f Y);
            bb = 200 * (lab_f Y - lab_f Z)
        in (saturate_u8 (L * 255 / 100), saturate_u8 (a + 128), saturate_u8 (bb + 128)))"

definition doc_bgr2gray :: "pixel \<Rightarrow> 8 word" where
  "doc_bgr2gray p =
     (case p of (b, g, r) \<Rightarrow>
        saturate_u8 ((299 * u8 r + 587 * u8 g + 114 * u8 b) / 1000))"

definition reflect101 :: "int \<Rightarrow> nat \<Rightarrow> nat" where
  "reflect101 i n =
     (if i < 0 then nat (- i)
      else if int n \<le> i then nat (2 * int n - 2 - i)
      else nat i)"

definition gray_at :: "gray_image \<Rightarrow> int \<Rightarrow> int \<Rightarrow> real" where
  "gray_at gray y x =
     (let yy = reflect101 y (length gray) in
      if yy < length gray
        then (let row = gray ! yy; xx = reflect101 x (length row) in
              if xx < length row then u8 (row ! xx) else 0)
      else 0)"

definition doc_sobel :: "gray_image \<Rightarrow> nat \<Rightarrow> nat \<Rightarrow> real list list" where
  "doc_sobel gray dx dy =
     map (\<lambda>y. map (\<lambda>x.
            if dx = 1 \<and> dy = 0 then
              (gray_at gray (int y - 1) (int x + 1) - gray_at gray (int y - 1) (int x - 1))
              + 2 * (gray_at gray (int y) (int x + 1) - gray_at gray (int y) (int x - 1))
              + (gray_at gray (int y + 1) (int x + 1) - gray_at gray (int y + 1) (int x - 1))
            else
              (gray_at gray (int y + 1) (int x - 1) - gray_at gray (int y - 1) (int x - 1))
              + 2 * (gray_at gray (int y + 1) (int x) - gray_at gray (int y - 1) (int x))
              + (gray_at gray (int y + 1) (int x + 1) - gray_at gray (int y - 1) (int x + 1)))
          [0..<length (gray ! y)])
       [0..<length gray]"

text \<open>
  Two image files and one file that is no image: \<^verbatim>\<open>black.png\<close> holds a black image of
  2 by 2 pixels, \<^verbatim>\<open>leaf.png\<close> four shades of green.
\<close>

definition black_image :: image where
  "black_image = replicate 2 (replicate 2 (0, 0, 0))"

definition leaf_image :: image where
  "leaf_image = [[(30, 200, 10), (28, 190, 12)], [(35, 180, 9), (40, 170, 14)]]"

definition sample_imread :: "string \<Rightarrow> image option" where
  "sample_imread image_path =
     (if image_path = ''black.png'' then Some black_image
      else if image_path = ''leaf.png'' then Some leaf_image
      else None)"

definition opencv_doc :: cv2 where
  "opencv_doc =
     \<lparr>imread = sample_imread, resize_at = bilinear_at, bgr2hsv = doc_bgr2hsv,
      bgr2lab = doc_bgr2lab, bgr2gray = doc_bgr2gray, sobel = doc_sobel\<rparr>"

text \<open>
  An \<^verbatim>\<open>argsort\<close> that keeps equal keys in the order of their indices, as NumPy's sort
  does on short arrays.
\<close>

definition stable_argsort :: "real list \<Rightarrow> nat list" where
  "stable_argsort probabilities =
     sort_key (\<lambda>i. probabilities ! i) [0..<length probabilities]"

text \<open>
  Pickled objects: a scaler fitted on \<open>W\<close> features, a scaler of a release that does not
  record \<^verbatim>\<open>n_features_in_\<close> and fails in its arithmetic on a row that is not of width
  1000, a reducer to two components and a classifier of three classes.
\<close>

definition sample_scaler :: "nat \<Rightarrow> scaler_obj" where
  "sample_scaler W = \<lparr>n_features_in = Some W, scale = (\<lambda>X. Inr (map (\<lambda>v. v / 255) X))\<rparr>"

definition legacy_scaler :: scaler_obj where
  "legacy_scaler =
     \<lparr>n_features_in = None,
      scale = (\<lambda>X. if length X \<noteq> 1000
                    then Inl (Exn ValueError ''operands could not be broadcast together'')
                    else Inr (map (\<lambda>v. v / 255) X))\<rparr>"

definition sample_pca :: pca_obj where
  "sample_pca = \<lparr>n_components = Some 2, pca_transform = (\<lambda>X. Inr (take 2 X))\<rparr>"

definition sample_model :: model_obj where
  "sample_model =
     \<lparr>classes = None, predict = (\<lambda>X. Inr 1),
      predict_proba = (\<lambda>X. Inr [1 / 5, 1 / 2, 3 / 10])\<rparr>"

definition sample_dir :: "scaler_obj \<Rightarrow> models_dir" where
  "sample_dir sc =
     \<lparr>best_model_pkl = Some sample_model, pca_pkl = Some sample_pca,
      scaler_pkl = Some sc, plant_info_json = None\<rparr>"

section \<open>Lemmas on reconciliation\<close>

lemma truthy_Some [simp]: "truthy (Some n) = (n \<noteq> 0)"
  by (simp add: truthy_def)

lemma truthy_None [simp]: "\<not> truthy None"
  by (simp add: truthy_def)

lemma length_reconcile_robust:
  "0 < W \<Longrightarrow> length (reconcile_robust (Some W) v) = W"
  by (simp add: reconcile_robust_def)

lemma length_reconcile_expected: "length (reconcile_expected W v) = W"
  by (simp add: reconcile_expected_def)

lemma reconcile_expected_fits: "length v = W \<Longrightarrow> reconcile_expected W v = v"
  by (simp add: reconcile_expected_def)

lemma reconcile_robust_None: "reconcile_robust None v = v"
  by (simp add: reconcile_robust_def)

section \<open>Lemmas on the feature vector\<close>

lemma length_concat_cv2_resize: "length (concat (cv2_resize cv img (w, h))) = h * w"
  by (simp add: cv2_resize_def length_concat comp_def sum_list_triv)

lemma length_concat_cvtColor: "length (concat (cvtColor f img)) = length (concat img)"
  by (simp add: cvtColor_def length_concat comp_def)

lemma length_flatten: "length (flatten img) = 3 * length (concat img)"
  by (simp add: flatten_def length_concat comp_def case_prod_unfold sum_list_triv)

lemma length_mean_axis01: "length (mean_axis01 img) = 3"
  by (simp add: mean_axis01_def channels_def)

lemma length_std_axis01: "length (std_axis01 img) = 3"
  by (simp add: std_axis01_def channels_def)

lemma length_compute_features:
  "length (compute_features cv R img) = 3 * R * R + 16"
  by (simp add: compute_features_def Let_def length_flatten length_concat_cvtColor
      length_concat_cv2_resize length_mean_axis01 length_std_axis01)

section \<open>Lemmas on images of one colour\<close>

lemma concat_replicate_replicate:
  "concat (replicate n (replicate m c)) = replicate (n * m) c"
  by (induction n) (simp_all add: replicate_add)

lemma cvtColor_constant:
  "cvtColor f (replicate n (replicate m c)) = replicate n (replicate m (f c))"
  by (simp add: cvtColor_def)

lemma np_mean_replicate: "0 < k \<Longrightarrow> np_mean (replicate k c) = c"
  by (simp add: np_mean_def sum_list_replicate)

lemma np_std_replicate: "np_std (replicate k c) = 0"
  by (simp add: np_std_def np_mean_def sum_list_replicate)

lemma sum_list_zeros: "\<forall>v\<in>set xs. v = 0 \<Longrightarrow> sum_list xs = (0::real)"
  by (induction xs) simp_all

lemma np_mean_zeros: "\<forall>v\<in>set xs. v = 0 \<Longrightarrow> np_mean xs = 0"
  by (simp add: np_mean_def sum_list_zeros)

lemma np_std_zeros: "\<forall>v\<in>set xs. v = 0 \<Longrightarrow> np_std xs = 0"
proof -
  assume z: "\<forall>v\<in>set xs. v = 0"
  then have m: "np_mean xs = 0" by (rule np_mean_zeros)
  have "\<forall>v\<in>set (map (\<lambda>x. (x - np_mean xs)\<^sup>2) xs). v = 0"
    using z m by auto
  then have "np_mean (map (\<lambda>x. (x - np_mean xs)\<^sup>2) xs) = 0" by (rule np_mean_zeros)
  then show ?thesis by (simp add: np_std_def)
qed

lemma mean_axis01_constant:
  "0 < n * m \<Longrightarrow> mean_axis01 (replicate n (replicate m (c0, c1, c2))) = [u8 c0, u8 c1, u8 c2]"
  by (simp add: mean_axis01_def channels_def concat_replicate_replicate np_mean_replicate)

lemma std_axis01_constant:
  "std_axis01 (replicate n (replicate m (c0, c1, c2))) = [0, 0, 0]"
  by (simp add: std_axis01_def channels_def concat_replicate_replicate np_std_replicate)

lemma black_tail:
  assumes rs: "cv2_resize cv img0 (64, 64) = replicate 64 (replicate 64 (0, 0, 0))"
    and hsv: "bgr2hsv cv (0, 0, 0) = (0, 0, 0)"
    and lab: "bgr2lab cv (0, 0, 0) = (0, 128, 128)"
    and gray: "bgr2gray cv (0, 0, 0) = 0"
    and sx: "\<forall>v\<in>set (concat (sobel cv (replicate 64 (replicate 64 0)) 1 0)). v = 0"
    and sy: "\<forall>v\<in>set (concat (sobel cv (replicate 64 (replicate 64 0)) 0 1)). v = 0"
  shows "drop 12288 (compute_features cv 64 img0)
         = [0, 0, 0, 0, 0, 0, 0, 128, 128, 0, 0, 0, 0, 0, 0, 0]"
proof -
  have len: "length (flatten (cvtColor bgr2rgb (cv2_resize cv img0 (64, 64)))) = 12288"
    by (simp add: length_flatten rs cvtColor_constant concat_replicate_replicate)
  have mx: "np_mean (concat (sobel cv (replicate 64 (replicate 64 0)) 1 0)) = 0"
    using sx by (rule np_mean_zeros)
  have my: "np_mean (concat (sobel cv (replicate 64 (replicate 64 0)) 0 1)) = 0"
    using sy by (rule np_mean_zeros)
  have dx: "np_std (concat (sobel cv (replicate 64 (replicate 64 0)) 1 0)) = 0"
    using sx by (rule np_std_zeros)
  have dy: "np_std (concat (sobel cv (replicate 64 (replicate 64 0)) 0 1)) = 0"
    using sy by (rule np_std_zeros)
  have "compute_features cv 64 img0
        = flatten (cvtColor bgr2rgb (cv2_resize cv img0 (64, 64)))
          @ [0, 0, 0, 0, 0, 0, 0, 128, 128, 0, 0, 0, 0, 0, 0, 0]"
    unfolding compute_features_def Let_def using mx my dx dy
    by (simp add: rs cvtColor_constant hsv lab gray mean_axis01_constant std_axis01_constant
        u8_def)
  then show ?thesis using len by simp
qed

section \<open>Lemmas on the library instance\<close>

lemma saturate_u8_0: "saturate_u8 0 = 0"
  by (simp add: saturate_u8_def)

lemma saturate_u8_128: "saturate_u8 128 = 128"
  by (simp add: saturate_u8_def)

lemma u8_0: "u8 0 = 0"
  by (simp add: u8_def)

lemma doc_bgr2hsv_black: "doc_bgr2hsv (0, 0, 0) = (0, 0, 0)"
  by (simp add: doc_bgr2hsv_def Let_def u8_0 saturate_u8_0)

lemma lab_f_0: "lab_f 0 = 16 / 116"
  by (simp add: lab_f_def)

lemma doc_bgr2lab_black: "doc_bgr2lab (0, 0, 0) = (0, 128, 128)"
  by (simp add: doc_bgr2lab_def Let_def u8_0 lab_f_0 saturate_u8_0 saturate_u8_128)

lemma doc_bgr2gray_black: "doc_bgr2gray (0, 0, 0) = 0"
  by (simp add: doc_bgr2gray_def u8_0 saturate_u8_0)

lemma clamp_index_less: "0 < n \<Longrightarrow> clamp_index i n < n"
  by (auto simp: clamp_index_def)

lemma black_image_nth: "a < 2 \<Longrightarrow> b < 2 \<Longrightarrow> black_image ! a ! b = (0, 0, 0)"
  by (simp add: black_image_def)

lemma bilinear_at_black: "bilinear_at black_image w h y x = (0, 0, 0)"
proof -
  have px: "black_image ! clamp_index i 2 ! clamp_index j 2 = (0, 0, 0)" for i j
    by (rule black_image_nth) (simp_all add: clamp_index_less)
  have l: "length black_image = 2" "length (hd black_image) = 2"
    by (simp_all add: black_image_def)
  show ?thesis
    unfolding bilinear_at_def Let_def l px
    by (simp add: u8_0 saturate_u8_0)
qed

lemma resize_black:
  "cv2_resize opencv_doc black_image (n, n) = replicate n (replicate n (0, 0, 0))"
proof -
  have "cv2_resize opencv_doc black_image (n, n)
        = map (\<lambda>y. map (\<lambda>x. (0, 0, 0)) [0..<n]) [0..<n]"
    by (simp only: cv2_resize_def opencv_doc_def cv2.simps prod.case bilinear_at_black)
  also have "\<dots> = replicate n (replicate n (0, 0, 0))"
    by (simp only: map_replicate_const length_upt diff_zero)
  finally show ?thesis .
qed

lemma gray_at_zero: "gray_at (replicate n (replicate m 0)) y x = 0"
  by (simp add: gray_at_def Let_def u8_0)

lemma doc_sobel_zero:
  "\<forall>v\<in>set (concat (doc_sobel (replicate n (replicate m 0)) dx dy)). v = 0"
  unfolding doc_sobel_def gray_at_zero by auto

lemma opencv_doc_fields:
  "imread opencv_doc = sample_imread"
  "bgr2hsv opencv_doc = doc_bgr2hsv"
  "bgr2lab opencv_doc = doc_bgr2lab"
  "bgr2gray opencv_doc = doc_bgr2gray"
  "sobel opencv_doc = doc_sobel"
  by (simp_all add: opencv_doc_def)

lemma black_tail_opencv_doc:
  "drop 12288 (compute_features opencv_doc 64 black_image)
   = [0, 0, 0, 0, 0, 0, 0, 128, 128, 0, 0, 0, 0, 0, 0, 0]"
proof (rule black_tail)
  show "cv2_resize opencv_doc black_image (64, 64) = replicate 64 (replicate 64 (0, 0, 0))"
    by (rule resize_black)
  show "bgr2hsv opencv_doc (0, 0, 0) = (0, 0, 0)"
    by (simp only: opencv_doc_fields doc_bgr2hsv_black)
  show "bgr2lab opencv_doc (0, 0, 0) = (0, 128, 128)"
    by (simp only: opencv_doc_fields doc_bgr2lab_black)
  show "bgr2gray opencv_doc (0, 0, 0) = 0"
    by (simp only: opencv_doc_fields doc_bgr2gray_black)
  show "\<forall>v\<in>set (concat (sobel opencv_doc (replicate 64 (replicate 64 0)) 1 0)). v = 0"
    unfolding opencv_doc_fields by (rule doc_sobel_zero)
  show "\<forall>v\<in>set (concat (sobel opencv_doc (replicate 64 (replicate 64 0)) 0 1)). v = 0"
    unfolding opencv_doc_fields by (rule doc_sobel_zero)
qed

section \<open>The claims\<close>

text \<open>
  Claim C5. Length reconciliation never reorders features. Whatever the expected width
  is, the reconciled row and the source row agree on their common prefix, and what
  follows the source entries is zeros only. For an expected width \<open>W > 0\<close> below the
  length of the row, the result is exactly the first \<open>W\<close> source entries (the trailing
  ones are dropped); for a width above the length, the result is the source row followed
  by zeros. In particular a row of 1200 entries reconciled to width 1000 keeps its first
  1000 entries and drops its last 200.
\<close>

theorem reconcile_keeps_order:
  "(let r = reconcile_robust scaler_expected v in
      take (min (length v) (length r)) r = take (min (length v) (length r)) v
      \<and> drop (length v) r = replicate (length r - length v) 0)
   \<and> (0 < W \<and> W < length v \<longrightarrow>
        reconcile_robust (Some W) v = take W v
        \<and> reconcile_robust (Some W) v @ drop W v = v
        \<and> (\<forall>i<W. reconcile_robust (Some W) v ! i = v ! i))
   \<and> (length v < W \<longrightarrow>
        reconcile_robust (Some W) v = v @ replicate (W - length v) 0)
   \<and> (length v = 1200 \<longrightarrow>
        length (reconcile_robust (Some 1000) v) = 1000
        \<and> take 1000 (reconcile_robust (Some 1000) v) = take 1000 v
        \<and> reconcile_robust (Some 1000) v @ drop 1000 v = v
        \<and> length (drop 1000 v) = 200)"
proof (intro conjI impI)
  show "let r = reconcile_robust scaler_expected v in
          take (min (length v) (length r)) r = take (min (length v) (length r)) v
          \<and> drop (length v) r = replicate (length r - length v) 0"
    by (cases scaler_expected) (simp_all add: reconcile_robust_def Let_def)
next
  assume "0 < W \<and> W < length v"
  then show "reconcile_robust (Some W) v = take W v"
    by (simp add: reconcile_robust_def)
  then show "reconcile_robust (Some W) v @ drop W v = v"
    by simp
  show "\<forall>i<W. reconcile_robust (Some W) v ! i = v ! i"
    using \<open>reconcile_robust (Some W) v = take W v\<close> by simp
next
  assume "length v < W"
  then show "reconcile_robust (Some W) v = v @ replicate (W - length v) 0"
    by (simp add: reconcile_robust_def)
next
  assume l: "length v = 1200"
  then have r: "reconcile_robust (Some 1000) v = take 1000 v"
    by (simp add: reconcile_robust_def)
  show "length (reconcile_robust (Some 1000) v) = 1000"
    unfolding r using l by simp
  show "take 1000 (reconcile_robust (Some 1000) v) = take 1000 v"
    unfolding r by simp
  show "reconcile_robust (Some 1000) v @ drop 1000 v = v"
    unfolding r by simp
  show "length (drop 1000 v) = 200"
    using l by simp
qed

theorem reconcile_keeps_order_witness:
  "reconcile_robust (Some 3) [5, 6, 7, 8] = [5, 6, 7]
   \<and> reconcile_robust (Some 3) [5, 6, 7, 8] @ [8] = [5, 6, 7, 8]
   \<and> reconcile_robust (Some 6) [5, 6, 7, 8] = [5, 6, 7, 8, 0, 0]
   \<and> reconcile_robust (Some 1000) (replicate 1000 1 @ replicate 200 2) = replicate 1000 1
   \<and> reconcile_robust (Some 1000) (replicate 1000 1 @ replicate 200 2) @ replicate 200 2
       = replicate 1000 1 @ replicate 200 2"
proof -
  have a: "reconcile_robust (Some 3) [5, 6, 7, 8] = [5, 6, 7]
           \<and> reconcile_robust (Some 3) [5, 6, 7, 8] @ [8] = [5, 6, 7, 8]"
    using reconcile_keeps_order [of "Some 3" "[5, 6, 7, 8]" 3,
        THEN conjunct2, THEN conjunct1]
    by simp
  have r2: "replicate 2 (0::real) = [0, 0]"
    by (simp add: numeral_2_eq_2)
  have b: "reconcile_robust (Some 6) [5, 6, 7, 8] = [5, 6, 7, 8, 0, 0]"
    using reconcile_keeps_order [of "Some 6" "[5, 6, 7, 8]" 6,
        THEN conjunct2, THEN conjunct2, THEN conjunct1]
    by (simp add: r2)
  have l: "length (replicate 1000 (1::real) @ replicate 200 2) = 1200" by simp
  have c: "reconcile_robust (Some 1000) (replicate 1000 1 @ replicate 200 2) = replicate 1000 1
           \<and> reconcile_robust (Some 1000) (replicate 1000 1 @ replicate 200 2) @ replicate 200 2
             = replicate 1000 1 @ replicate 200 2"
    using reconcile_keeps_order [of "Some 1000" "replicate 1000 1 @ replicate 200 2" 1000,
        THEN conjunct2, THEN conjunct2, THEN conjunct2] l
    by simp
  from a b c show ?thesis by blast
qed

text \<open>
  Claim C7. Reconciliation is idempotent: applied twice with the same expected width it
  gives what one application gives, at both places of the code, and a row that already
  has the expected width is returned unchanged.
\<close>

theorem reconcile_idempotent:
  "reconcile_robust scaler_expected (reconcile_robust scaler_expected v)
     = reconcile_robust scaler_expected v
   \<and> reconcile_expected W (reconcile_expected W v) = reconcile_expected W v
   \<and> (length v = W \<longrightarrow> reconcile_robust (Some W) v = v \<and> reconcile_expected W v = v)"
  by (cases scaler_expected) (auto simp: reconcile_robust_def reconcile_expected_def)

theorem reconcile_idempotent_witness:
  "reconcile_robust (Some 2) (reconcile_robust (Some 2) [5, 6, 7]) = [5, 6]
   \<and> reconcile_expected 4 (reconcile_expected 4 [5, 6, 7]) = [5, 6, 7, 0]
   \<and> reconcile_robust (Some 3) [5, 6, 7] = [5, 6, 7]
   \<and> reconcile_expected 3 [5, 6, 7] = [5, 6, 7]"
proof -
  have a: "reconcile_robust (Some 2) [5, 6, 7] = [5, 6]"
    by (simp add: reconcile_robust_def)
  have b: "reconcile_expected 4 [5, 6, 7] = [5, 6, 7, 0]"
    by (simp add: reconcile_expected_def numeral_eq_Suc)
  have "length [5, 6, 7 :: real] = 3" by simp
  with reconcile_idempotent [of "Some 2" "[5, 6, 7]" 4] reconcile_idempotent [of "Some 3" "[5, 6, 7]" 3] a b
  show ?thesis by simp
qed

text \<open>Lemmas on the concrete inputs of the closed theorems.\<close>

lemma sample_imread_leaf: "imread opencv_doc ''leaf.png'' = Some leaf_image"
  by (simp add: opencv_doc_def sample_imread_def)

lemma sample_imread_black: "imread opencv_doc ''black.png'' = Some black_image"
  by (simp add: opencv_doc_def sample_imread_def)

lemma sample_imread_notes: "imread opencv_doc ''notes.txt'' = None"
  by (simp add: opencv_doc_def sample_imread_def)

lemma scaler_expected_legacy:
  "scaler_expected_of (ImprovedSklearnClassifier (sample_dir legacy_scaler)) = None"
  by (simp add: scaler_expected_of_def ImprovedSklearnClassifier_def load_models_def
      load_plant_info_def sample_dir_def legacy_scaler_def)

text \<open>
  Claim C6. For every decodable image, the vector built by lines 80 to 106 of
  \<^verbatim>\<open>extract_features_robust\<close> and by lines 70 to 96 of \<^verbatim>\<open>extract_features\<close> has
  \<open>3 R\<^sup>2 + 6 + 6 + 4\<close> entries, \<open>R\<close> being the size of the resize: the flattened RGB
  pixels (\<open>3 R\<^sup>2\<close> entries), the HSV means and standard deviations (3 and 3), the LAB
  means and standard deviations (3 and 3), then the mean and standard deviation of the
  horizontal and of the vertical Sobel response. With \<open>R = 64\<close> that is 12304 entries and
  with \<open>R = 128\<close> it is 49168, so the two classes build vectors of different lengths from
  the same image. \<^verbatim>\<open>extract_features\<close> returns this vector; \<^verbatim>\<open>extract_features_robust\<close>
  returns it after the reconciliation of lines 109 to 117.
\<close>

theorem feature_vector_layout:
  "length (compute_features cv R img) = 3 * R\<^sup>2 + 6 + 6 + 4
   \<and> compute_features cv R img
       = flatten (cvtColor bgr2rgb (cv2_resize cv img (R, R)))
         @ mean_axis01 (cvtColor (bgr2hsv cv) (cv2_resize cv img (R, R)))
         @ std_axis01 (cvtColor (bgr2hsv cv) (cv2_resize cv img (R, R)))
         @ mean_axis01 (cvtColor (bgr2lab cv) (cv2_resize cv img (R, R)))
         @ std_axis01 (cvtColor (bgr2lab cv) (cv2_resize cv img (R, R)))
         @ [np_mean (concat (sobel cv (cvtColor (bgr2gray cv) (cv2_resize cv img (R, R))) 1 0)),
            np_std (concat (sobel cv (cvtColor (bgr2gray cv) (cv2_resize cv img (R, R))) 1 0)),
            np_mean (concat (sobel cv (cvtColor (bgr2gray cv) (cv2_resize cv img (R, R))) 0 1)),
            np_std (concat (sobel cv (cvtColor (bgr2gray cv) (cv2_resize cv img (R, R))) 0 1))]
   \<and> length (flatten (cvtColor bgr2rgb (cv2_resize cv img (R, R)))) = 3 * R\<^sup>2
   \<and> length (mean_axis01 (cvtColor (bgr2hsv cv) (cv2_resize cv img (R, R)))) = 3
   \<and> length (std_axis01 (cvtColor (bgr2hsv cv) (cv2_resize cv img (R, R)))) = 3
   \<and> length (mean_axis01 (cvtColor (bgr2lab cv) (cv2_resize cv img (R, R)))) = 3
   \<and> length (std_axis01 (cvtColor (bgr2lab cv) (cv2_resize cv img (R, R)))) = 3
   \<and> length (compute_features cv 64 img) = 12304
   \<and> length (compute_features cv 128 img) = 49168
   \<and> (imread cv image_path = Some img \<longrightarrow>
        fst (extract_features cv pself image_path) = Some (compute_features cv 128 img)
        \<and> fst (extract_features_robust cv iself image_path)
            = Some (reconcile_robust (scaler_expected_of iself) (compute_features cv 64 img)))"
proof (intro conjI impI)
  show "length (compute_features cv R img) = 3 * R\<^sup>2 + 6 + 6 + 4"
    by (simp add: length_compute_features power2_eq_square)
  show "length (flatten (cvtColor bgr2rgb (cv2_resize cv img (R, R)))) = 3 * R\<^sup>2"
    by (simp add: length_flatten length_concat_cvtColor length_concat_cv2_resize
        power2_eq_square)
  show "length (compute_features cv 64 img) = 12304"
    by (simp add: length_compute_features)
  show "length (compute_features cv 128 img) = 49168"
    by (simp add: length_compute_features)
next
  assume "imread cv image_path = Some img"
  then show "fst (extract_features cv pself image_path) = Some (compute_features cv 128 img)"
    by (simp add: extract_features_def)
  show "fst (extract_features_robust cv iself image_path)
          = Some (reconcile_robust (scaler_expected_of iself) (compute_features cv 64 img))"
    using \<open>imread cv image_path = Some img\<close>
    by (simp add: extract_features_robust_def extract_features_robust_body_def)
qed (simp_all add: compute_features_def Let_def length_mean_axis01 length_std_axis01)

theorem feature_vector_layout_witness:
  "map_option length
     (fst (extract_features opencv_doc (SklearnPlantClassifier (sample_dir legacy_scaler))
        ''leaf.png'')) = Some 49168
   \<and> map_option length
     (fst (extract_features_robust opencv_doc
        (ImprovedSklearnClassifier (sample_dir legacy_scaler)) ''leaf.png'')) = Some 12304"
  using feature_vector_layout [of opencv_doc 64 leaf_image "''leaf.png''"
      "SklearnPlantClassifier (sample_dir legacy_scaler)"
      "ImprovedSklearnClassifier (sample_dir legacy_scaler)"]
    sample_imread_leaf scaler_expected_legacy
  by (simp add: reconcile_robust_None)

text \<open>
  Claim C3, as amended. For an input whose resized image of 64 by 64 pixels is all black,
  the last 16 entries of the vector built by lines 87 to 106 are zero but for two: the
  means of the second and third LAB channels are 128. The theorem holds for every
  OpenCV that converts a black pixel to \<open>(0, 0, 0)\<close> in HSV, to \<open>(0, 128, 128)\<close> in LAB
  (the channels a and b of an 8-bit image are stored shifted by 128) and to 0 in grey,
  and whose Sobel response to an image of zeros is zero. The claim as stated, all 16
  entries zero, fails on the black image: the counterexample evaluates the code there.
\<close>

theorem black_image_tail:
  "cv2_resize cv img0 (64, 64) = replicate 64 (replicate 64 (0, 0, 0)) \<Longrightarrow>
   bgr2hsv cv (0, 0, 0) = (0, 0, 0) \<Longrightarrow>
   bgr2lab cv (0, 0, 0) = (0, 128, 128) \<Longrightarrow>
   bgr2gray cv (0, 0, 0) = 0 \<Longrightarrow>
   \<forall>v\<in>set (concat (sobel cv (replicate 64 (replicate 64 0)) 1 0)). v = 0 \<Longrightarrow>
   \<forall>v\<in>set (concat (sobel cv (replicate 64 (replicate 64 0)) 0 1)). v = 0 \<Longrightarrow>
   length (compute_features cv 64 img0) = 12288 + 16
   \<and> drop 12288 (compute_features cv 64 img0)
       = [0, 0, 0, 0, 0, 0, 0, 128, 128, 0, 0, 0, 0, 0, 0, 0]"
  by (simp add: black_tail length_compute_features)

theorem black_image_tail_witness:
  "imread opencv_doc ''black.png'' = Some black_image
   \<and> length (compute_features opencv_doc 64 black_image) = 12304
   \<and> drop 12288 (compute_features opencv_doc 64 black_image)
       = [0, 0, 0, 0, 0, 0, 0, 128, 128, 0, 0, 0, 0, 0, 0, 0]"
proof -
  have sx: "\<forall>v\<in>set (concat (sobel opencv_doc (replicate 64 (replicate 64 0)) 1 0)). v = 0"
    unfolding opencv_doc_fields by (rule doc_sobel_zero)
  have sy: "\<forall>v\<in>set (concat (sobel opencv_doc (replicate 64 (replicate 64 0)) 0 1)). v = 0"
    unfolding opencv_doc_fields by (rule doc_sobel_zero)
  have "length (compute_features opencv_doc 64 black_image) = 12288 + 16
        \<and> drop 12288 (compute_features opencv_doc 64 black_image)
            = [0, 0, 0, 0, 0, 0, 0, 128, 128, 0, 0, 0, 0, 0, 0, 0]"
    by (rule black_image_tail [OF resize_black _ _ _ sx sy])
       (simp_all only: opencv_doc_fields doc_bgr2hsv_black doc_bgr2lab_black doc_bgr2gray_black)
  then show ?thesis using sample_imread_black by simp
qed

theorem black_image_tail_counterexample:
  "imread opencv_doc ''black.png'' = Some black_image
   \<and> black_image = [[(0, 0, 0), (0, 0, 0)], [(0, 0, 0), (0, 0, 0)]]
   \<and> cv2_resize opencv_doc black_image (64, 64) = replicate 64 (replicate 64 (0, 0, 0))
   \<and> drop 12288 (compute_features opencv_doc 64 black_image) ! 7 = 128
   \<and> drop 12288 (compute_features opencv_doc 64 black_image) ! 8 = 128
   \<and> drop 12288 (compute_features opencv_doc 64 black_image) \<noteq> replicate 16 0"
proof -
  have b: "black_image = [[(0, 0, 0), (0, 0, 0)], [(0, 0, 0), (0, 0, 0)]]"
    by (simp add: black_image_def numeral_2_eq_2)
  have n7: "drop 12288 (compute_features opencv_doc 64 black_image) ! 7 = 128"
    unfolding black_tail_opencv_doc by simp
  have n8: "drop 12288 (compute_features opencv_doc 64 black_image) ! 8 = 128"
    unfolding black_tail_opencv_doc by simp
  have "replicate 16 (0::real) ! 7 = 0" by simp
  with n7 have ne: "drop 12288 (compute_features opencv_doc 64 black_image) \<noteq> replicate 16 0"
    by (metis zero_neq_numeral)
  from sample_imread_black b resize_black n7 n8 ne show ?thesis by blast
qed

text \<open>Lemmas on the extraction and on the calls of the scaler.\<close>

lemma extract_features_robust_Some:
  "imread cv image_path = Some img \<Longrightarrow>
   extract_features_robust cv self image_path
     = (Some (reconcile_robust (scaler_expected_of self) (compute_features cv 64 img)), self)"
  by (simp add: extract_features_robust_def extract_features_robust_body_def)

lemma extract_features_robust_None:
  "imread cv image_path = None \<Longrightarrow> extract_features_robust cv self image_path = (None, self)"
  by (simp add: extract_features_robust_def extract_features_robust_body_def)

lemma extract_features_Some:
  "imread cv image_path = Some img \<Longrightarrow>
   extract_features cv self image_path = (Some (compute_features cv 128 img), self)"
  by (simp add: extract_features_def)

lemma scaler_transform_width:
  "n_features_in sc = Some W \<Longrightarrow> length v = W \<Longrightarrow> scaler_transform sc v = scale sc v"
  by (simp add: scaler_transform_def)

lemma scaler_transform_wrong_width:
  "n_features_in sc = Some W \<Longrightarrow> length v \<noteq> W \<Longrightarrow>
   scaler_transform sc v
     = Inl (Exn ValueError ''X has a number of features the scaler is not expecting'')"
  by (simp add: scaler_transform_def)

lemma scaler_transform_no_width:
  "n_features_in sc = None \<Longrightarrow> scaler_transform sc v = scale sc v"
  by (simp add: scaler_transform_def)

lemma scale_features_width:
  "n_features_in sc = Some W \<Longrightarrow> length v = W \<Longrightarrow> scale_features (Some sc) v = scale sc v"
  by (cases "scale sc v")
     (simp_all add: scale_features_def try_except_ValueError_def call_on_def
        scaler_transform_def reconcile_expected_def)

lemma scale_features_no_width:
  "n_features_in sc = None \<Longrightarrow> scale_features (Some sc) v = scale sc v"
  by (cases "scale sc v")
     (simp_all add: scale_features_def try_except_ValueError_def call_on_def
        scaler_transform_def reconcile_expected_def)

lemma recovery_entered_width:
  "n_features_in sc = Some W \<Longrightarrow> length v = W \<Longrightarrow>
   recovery_entered (Some sc) v
     = (case scale sc v of Inl e \<Rightarrow> exn_kind e = ValueError | Inr x \<Rightarrow> False)"
  by (simp add: recovery_entered_def call_on_def scaler_transform_def)

end
